theory Spec2Isabelle
  imports Complex_Main "HOL-Library.Char_ord" "HOL-Library.List_Lexorder" "HOL-Library.Sublist"
    "HOL-Library.Multiset"
begin

section \<open>Data model of dashboard.py\<close>

text \<open>
  The script reads six CSV tables with pandas, left-joins them into one frame, filters
  that frame by state and year and computes metrics over the filtered frame.

  A frame is the list of its rows, in row order. A cell that pandas holds as NaN (a
  blank CSV field, or the right-hand side of a left join without a match) is \<open>None\<close>.
  A number cell holds the real number that the float64 value stands for. The columns
  are the ones the script and the data model name.
\<close>

record factsale =
  fs_Customer_Key :: "int option"
  fs_City_Key :: "int option"
  fs_Salesperson_Key :: "int option"
  fs_Stock_Item_Key :: "int option"
  fs_Invoice_Date_Key :: "string option"
  fs_Unit_Price :: "real option"
  fs_Tax_Amount :: "real option"

record dimcustomer =
  cu_Customer_Key :: "int option"
  cu_Customer :: "string option"

record dimcity =
  ci_City_Key :: "int option"
  ci_City :: "string option"
  ci_State_Province :: "string option"

record dimemployee =
  em_Employee_Key :: "int option"
  em_Employee :: "string option"

record dimstockitem =
  si_Stock_Item_Key :: "int option"
  si_Color :: "string option"
  si_Size :: "string option"
  si_Brand :: "string option"

record dimdate =
  dd_Date :: "string option"
  dd_Calendar_Year :: "real option"

text \<open>
  A row of the merged frame: the fact row, and for each dimension the matched dimension
  row, or \<open>None\<close> where the left join found no match (all of that dimension's columns
  are then NaN). The suffixes of the merges keep both columns of a name collision, so
  no column of either side is lost.
\<close>

type_synonym merged_row =
  "((((factsale \<times> dimcustomer option) \<times> dimcity option) \<times> dimemployee option)
      \<times> dimstockitem option) \<times> dimdate option"

type_synonym view = "merged_row list"

text \<open>Column access \<open>df['...']\<close>, row by row.\<close>

fun State_Province :: "merged_row \<Rightarrow> string option" where
  "State_Province (((((f, cu), ci), em), si), dd) = Option.bind ci ci_State_Province"

fun Calendar_Year :: "merged_row \<Rightarrow> real option" where
  "Calendar_Year (((((f, cu), ci), em), si), dd) = Option.bind dd dd_Calendar_Year"

fun Color :: "merged_row \<Rightarrow> string option" where
  "Color (((((f, cu), ci), em), si), dd) = Option.bind si si_Color"

fun Size :: "merged_row \<Rightarrow> string option" where
  "Size (((((f, cu), ci), em), si), dd) = Option.bind si si_Size"

fun Brand :: "merged_row \<Rightarrow> string option" where
  "Brand (((((f, cu), ci), em), si), dd) = Option.bind si si_Brand"

fun Unit_Price :: "merged_row \<Rightarrow> real option" where
  "Unit_Price (((((f, cu), ci), em), si), dd) = fs_Unit_Price f"

fun Tax_Amount :: "merged_row \<Rightarrow> real option" where
  "Tax_Amount (((((f, cu), ci), em), si), dd) = fs_Tax_Amount f"

datatype error = FileNotFoundError | ValueError | OverflowError

text \<open>
  The exceptions of the script. The specification calls the first one
  DataNotFoundError and the second one InvalidFilterError; the third one is raised when
  an integer beyond the float64 range is compared with a float64 column.
\<close>

section \<open>load\_data\<close>

text \<open>
  \<open>left.merge(right, left_on=..., right_on=..., how='left')\<close>: every left row, in
  order, paired with each right row of the same key (in the right frame's order), or
  with NaN where there is none. pandas matches a NaN key with a NaN key, as equality
  on \<open>option\<close> does.
\<close>

definition merge_left ::
  "'a list \<Rightarrow> 'b list \<Rightarrow> ('a \<Rightarrow> 'k) \<Rightarrow> ('b \<Rightarrow> 'k) \<Rightarrow> ('a \<times> 'b option) list" where
  "merge_left left right left_on right_on =
     concat (map (\<lambda>l. case filter (\<lambda>r. right_on r = left_on l) right of
                          [] \<Rightarrow> [(l, None)]
                        | ms \<Rightarrow> map (\<lambda>r. (l, Some r)) ms) left)"

text \<open>The directory \<open>Data/\<close>: each of the six files is absent or holds a table.\<close>

record data_dir =
  FactSale_csv :: "factsale list option"
  DimCostumer_csv :: "dimcustomer list option"
  DimCity_csv :: "dimcity list option"
  DimDate_csv :: "dimdate list option"
  DimEmployee_csv :: "dimemployee list option"
  DimStockItem_csv :: "dimstockitem list option"

definition read_csv :: "'a option \<Rightarrow> error + 'a" where
  "read_csv file = (case file of None \<Rightarrow> Inl FileNotFoundError | Some table \<Rightarrow> Inr table)"

definition on_value :: "error + 'a \<Rightarrow> ('a \<Rightarrow> error + 'b) \<Rightarrow> error + 'b" where
  "on_value r k = (case r of Inl e \<Rightarrow> Inl e | Inr v \<Rightarrow> k v)"

text \<open>
  The body of \<open>load_data\<close>. The six reads run in the order of the source and the first
  absent file raises; the handler shows a message and raises the same exception again,
  so the error reaches the caller unchanged.
\<close>

definition load_data :: "data_dir \<Rightarrow> error + view" where
  "load_data d =
     on_value (read_csv (FactSale_csv d)) (\<lambda>factsale.
     on_value (read_csv (DimCostumer_csv d)) (\<lambda>dimcustomer.
     on_value (read_csv (DimCity_csv d)) (\<lambda>dimcity.
     on_value (read_csv (DimDate_csv d)) (\<lambda>dimdate.
     on_value (read_csv (DimEmployee_csv d)) (\<lambda>dimemployee.
     on_value (read_csv (DimStockItem_csv d)) (\<lambda>dimstockitem.
       let m1 = merge_left factsale dimcustomer fs_Customer_Key cu_Customer_Key;
           m2 = merge_left m1 dimcity (fs_City_Key \<circ> fst) ci_City_Key;
           m3 = merge_left m2 dimemployee (fs_Salesperson_Key \<circ> fst \<circ> fst) em_Employee_Key;
           m4 = merge_left m3 dimstockitem (fs_Stock_Item_Key \<circ> fst \<circ> fst \<circ> fst)
                  si_Stock_Item_Key;
           merged_df = merge_left m4 dimdate (fs_Invoice_Date_Key \<circ> fst \<circ> fst \<circ> fst \<circ> fst)
                  dd_Date
       in Inr merged_df))))))"

text \<open>
  The decorator \<open>@st.cache_data\<close> on a function without arguments: one cache entry.
  A call with the entry present returns it without running the body; otherwise the
  body runs, and only a value it returns is stored: an exception leaves the cache as
  it was.
\<close>

definition cached_load_data :: "view option \<Rightarrow> data_dir \<Rightarrow> view option \<times> (error + view)" where
  "cached_load_data cache d =
     (case cache of
        Some v \<Rightarrow> (cache, Inr v)
      | None \<Rightarrow> (case load_data d of
                   Inl e \<Rightarrow> (None, Inl e)
                 | Inr v \<Rightarrow> (Some v, Inr v)))"

section \<open>filter\_data\<close>

text \<open>
  The two selections are Python values: a string or an integer. A string is the list of
  its code points, each below 256, so that a \<open>char\<close> is one code point.

  \<open>int(v)\<close> of an integer is the integer. Of a string it is the decimal literal the
  string holds: white space at both ends is skipped (tab to carriage return, space,
  and the code points 0x85 and 0xA0; the separators 0x1C to 0x1F are not skipped), a
  sign may come first, and single underscores may stand between digits. Anything else
  raises ValueError, and so does a literal of more than 4300 digits, the default limit
  of the interpreter (leading zeros count, the sign and underscores do not).
\<close>

datatype pyval = VStr string | VInt int

definition is_space :: "char \<Rightarrow> bool" where
  "is_space c = (c \<in> set [CHR '' '', CHR 0x09, CHR 0x0A, CHR 0x0B, CHR 0x0C, CHR 0x0D,
                           CHR 0x85, CHR 0xA0])"

definition strip :: "string \<Rightarrow> string" where
  "strip s = rev (dropWhile is_space (rev (dropWhile is_space s)))"

definition is_digit :: "char \<Rightarrow> bool" where
  "is_digit c = (CHR ''0'' \<le> c \<and> c \<le> CHR ''9'')"

definition digit_val :: "char \<Rightarrow> nat" where
  "digit_val c = of_char c - 48"

fun parse_digits :: "nat \<Rightarrow> string \<Rightarrow> nat option" where
  "parse_digits acc [] = Some acc"
| "parse_digits acc [c] = (if is_digit c then Some (10 * acc + digit_val c) else None)"
| "parse_digits acc (c # d # cs) =
     (if is_digit c then parse_digits (10 * acc + digit_val c) (d # cs)
      else if c = CHR ''_'' \<and> is_digit d then parse_digits (10 * acc + digit_val d) cs
      else None)"

definition parse_nat :: "string \<Rightarrow> nat option" where
  "parse_nat s = (case s of [] \<Rightarrow> None
                  | c # cs \<Rightarrow> if is_digit c then parse_digits (digit_val c) cs else None)"

definition int_max_str_digits :: nat where
  "int_max_str_digits = 4300"

definition int_of_str :: "string \<Rightarrow> int option" where
  "int_of_str s =
     (case strip s of
        [] \<Rightarrow> None
      | c # cs \<Rightarrow>
          (let body = (if c = CHR ''-'' \<or> c = CHR ''+'' then cs else c # cs)
           in if int_max_str_digits < length (filter is_digit body) then None
              else map_option (\<lambda>m. if c = CHR ''-'' then - int m else int m)
                     (parse_nat body)))"

definition py_int :: "pyval \<Rightarrow> error + int" where
  "py_int v = (case v of VInt n \<Rightarrow> Inr n
               | VStr s \<Rightarrow> (case int_of_str s of None \<Rightarrow> Inl ValueError | Some n \<Rightarrow> Inr n))"

text \<open>
  The Calendar Year column is taken as a float64 column, which it is as soon as one
  sale has no date row (its cell is then NaN). To compare such a column with an integer
  the integer is converted to float64 first: a
  magnitude up to \<open>2^53\<close> is kept as it is, a larger one is rounded to 53
  significant bits, a tie to the even neighbour, and a magnitude that rounds to
  \<open>2^1024\<close> or more raises OverflowError. (A column without NaN that holds whole
  numbers only is int64 and is compared exactly; the two comparisons agree on every
  integer of magnitude up to \<open>2^53\<close>.)
\<close>

fun bit_length :: "nat \<Rightarrow> nat" where
  "bit_length m = (if m = 0 then 0 else Suc (bit_length (m div 2)))"

definition float64_round :: "nat \<Rightarrow> nat" where
  "float64_round m =
     (if m \<le> 2 ^ 53 then m
      else let e = bit_length m - 53; q = m div 2 ^ e; r = m mod 2 ^ e; h = 2 ^ (e - 1)
           in (if r < h \<or> (r = h \<and> even q) then q else q + 1) * 2 ^ e)"

definition float64_of_int :: "int \<Rightarrow> error + real" where
  "float64_of_int n =
     (let m = float64_round (nat \<bar>n\<bar>)
      in if 2 ^ 1024 \<le> m then Inl OverflowError else Inr (of_int (sgn n * int m)))"

text \<open>
  \<open>filtered_df['State Province'] == selected_state\<close>, for one row: a string cell
  equals the same string only; NaN equals nothing.
\<close>

definition state_eq :: "pyval \<Rightarrow> merged_row \<Rightarrow> bool" where
  "state_eq selected_state r =
     (case selected_state of VStr s \<Rightarrow> State_Province r = Some s | VInt n \<Rightarrow> False)"

text \<open>
  \<open>filtered_df['Calendar Year'] == int(selected_year)\<close>, for one row, with the
  integer already converted to the float64 value \<open>y\<close>: NaN equals nothing.
\<close>

definition year_eq :: "real \<Rightarrow> merged_row \<Rightarrow> bool" where
  "year_eq y r = (Calendar_Year r = Some y)"

text \<open>
  \<open>filter_data\<close> on frames as values: \<open>df.copy()\<close> is the same rows, and
  \<open>filtered_df[mask]\<close> keeps the rows whose mask is true, in order. On the year
  line \<open>int(selected_year)\<close> is evaluated first, then the comparison, then the
  selection of the rows; each of the first two can raise.
\<close>

definition filter_data :: "view \<Rightarrow> pyval \<Rightarrow> pyval \<Rightarrow> error + view" where
  "filter_data df selected_state selected_year =
     (let filtered_df = df;
          filtered_df = (if selected_state \<noteq> VStr ''All''
                         then filter (state_eq selected_state) filtered_df
                         else filtered_df)
      in if selected_year \<noteq> VStr ''All''
         then on_value (py_int selected_year) (\<lambda>n.
              on_value (float64_of_int n) (\<lambda>y. Inr (filter (year_eq y) filtered_df)))
         else Inr filtered_df)"

text \<open>
  \<open>filter_data\<close> on frames as objects of a store. A reference is an index into the
  store; \<open>df.copy()\<close> and \<open>filtered_df[mask]\<close> each allocate a new frame and leave the
  frame they read as it is.
\<close>

type_synonym store = "view list"
type_synonym ref = nat

definition df_copy :: "store \<Rightarrow> ref \<Rightarrow> store \<times> ref" where
  "df_copy h df = (h @ [h ! df], length h)"

definition df_getitem :: "store \<Rightarrow> ref \<Rightarrow> (merged_row \<Rightarrow> bool) \<Rightarrow> store \<times> ref" where
  "df_getitem h df keep = (h @ [filter keep (h ! df)], length h)"

definition filter_data_store :: "store \<Rightarrow> ref \<Rightarrow> pyval \<Rightarrow> pyval \<Rightarrow> store \<times> (error + ref)" where
  "filter_data_store h df selected_state selected_year =
     (let (h1, filtered_df) = df_copy h df;
          (h2, filtered_df) = (if selected_state \<noteq> VStr ''All''
                               then df_getitem h1 filtered_df (state_eq selected_state)
                               else (h1, filtered_df))
      in if selected_year \<noteq> VStr ''All''
         then (case py_int selected_year of
                 Inl e \<Rightarrow> (h2, Inl e)
               | Inr n \<Rightarrow>
                   (case float64_of_int n of
                      Inl e \<Rightarrow> (h2, Inl e)
                    | Inr y \<Rightarrow> (let (h3, filtered_df) = df_getitem h2 filtered_df (year_eq y)
                                in (h3, Inr filtered_df))))
         else (h2, Inr filtered_df))"

section \<open>The metrics and chart data of main\<close>

text \<open>
  pandas reductions skip NaN: \<open>sum\<close> of nothing is 0, \<open>mean\<close> and \<open>median\<close> of
  nothing are NaN. \<open>unique\<close> keeps the first occurrence of every value.

  The sum, the mean and the rounding below are taken over exact real numbers. pandas
  computes them in float64 (or in int64, which wraps around), rounding after every
  step in an order of its own, so on a series that is not empty these definitions give
  the value only up to that rounding; nothing proved in this theory relies on the value
  of a sum, a mean or a rounding of a series that is not empty.
\<close>

definition dropna :: "'a option list \<Rightarrow> 'a list" where
  "dropna xs = List.map_filter id xs"

definition unique :: "'a list \<Rightarrow> 'a list" where
  "unique xs = rev (remdups (rev xs))"

definition fillna :: "'a \<Rightarrow> 'a option list \<Rightarrow> 'a option list" where
  "fillna a xs = map (\<lambda>x. case x of None \<Rightarrow> Some a | Some v \<Rightarrow> Some v) xs"

definition series_sum :: "real option list \<Rightarrow> real" where
  "series_sum xs = sum_list (dropna xs)"

definition series_mean :: "real option list \<Rightarrow> real option" where
  "series_mean xs =
     (let vs = dropna xs in if vs = [] then None else Some (sum_list vs / real (length vs)))"

definition series_median :: "real option list \<Rightarrow> real option" where
  "series_median xs =
     (let vs = sort (dropna xs); n = length vs
      in if n = 0 then None
         else if odd n then Some (vs ! (n div 2))
         else Some ((vs ! (n div 2 - 1) + vs ! (n div 2)) / 2))"

text \<open>\<open>round(x, 2)\<close>: to two decimals, a tie to the even neighbour; NaN stays NaN.\<close>

definition round_half_even :: "real \<Rightarrow> int" where
  "round_half_even x =
     (let f = \<lfloor>x\<rfloor>; d = x - of_int f
      in if d < 1 / 2 then f else if 1 / 2 < d then f + 1 else if even f then f else f + 1)"

definition round2 :: "real option \<Rightarrow> real option" where
  "round2 x = map_option (\<lambda>v. of_int (round_half_even (v * 100)) / 100) x"

text \<open>
  \<open>groupby(keys)[column]\<close>: the rows of a NaN key belong to no group; the groups come
  in the sorted order of their keys, each with the values of its rows.
\<close>

definition groupby :: "('k::linorder) option list \<Rightarrow> 'v list \<Rightarrow> ('k \<times> 'v list) list" where
  "groupby keys vals =
     map (\<lambda>k. (k, map snd (filter (\<lambda>kv. fst kv = Some k) (zip keys vals))))
         (sort (remdups (dropna keys)))"

definition state_abbreviations :: "(string \<times> string) list" where
  "state_abbreviations =
     [(''Alaska'', ''AK''), (''California'', ''CA''), (''Hawaii'', ''HI''),
      (''Nevada'', ''NV''), (''Oregon'', ''OR''), (''Washington'', ''WA'')]"

text \<open>The values \<open>main\<close> computes from \<open>filtered_df\<close>, under the names it gives them.\<close>

definition unique_colors :: "view \<Rightarrow> nat" where
  "unique_colors filtered_df = length (unique (dropna (map Color filtered_df)))"

definition avg_unit_price :: "view \<Rightarrow> real option" where
  "avg_unit_price filtered_df = round2 (series_mean (map Unit_Price filtered_df))"

definition unique_sizes :: "view \<Rightarrow> nat" where
  "unique_sizes filtered_df = length (unique (dropna (map Size filtered_df)))"

definition total_revenue :: "view \<Rightarrow> real" where
  "total_revenue filtered_df = series_sum (map Unit_Price filtered_df)"

definition state_revenue :: "view \<Rightarrow> (string \<times> real \<times> string option) list" where
  "state_revenue filtered_df =
     map (\<lambda>(k, vs). (k, series_sum vs, map_of state_abbreviations k))
         (groupby (map State_Province filtered_df) (map Unit_Price filtered_df))"

definition size_sales :: "view \<Rightarrow> (string \<times> real) list" where
  "size_sales filtered_df =
     map (\<lambda>(k, vs). (k, series_sum vs))
         (groupby (fillna ''Sin Talla'' (map Size filtered_df)) (map Unit_Price filtered_df))"

definition state_tax :: "view \<Rightarrow> (string \<times> real option) list" where
  "state_tax filtered_df =
     map (\<lambda>(k, vs). (k, series_median vs))
         (groupby (map State_Province filtered_df) (map Tax_Amount filtered_df))"

definition brand_sales :: "view \<Rightarrow> (string \<times> real) list" where
  "brand_sales filtered_df =
     map (\<lambda>(k, vs). (k, series_sum vs))
         (groupby (fillna ''Sin Marca'' (map Brand filtered_df)) (map Unit_Price filtered_df))"

section \<open>A small data set\<close>

text \<open>
  Two sale lines in California at unit prices 10 and 20; the first item has no size,
  the second sale has no row in the date table.
\<close>

definition ex_factsale :: "factsale list" where
  "ex_factsale =
     [\<lparr>fs_Customer_Key = Some 1, fs_City_Key = Some 7, fs_Salesperson_Key = Some 3,
       fs_Stock_Item_Key = Some 1, fs_Invoice_Date_Key = Some ''2013-01-01'',
       fs_Unit_Price = Some 10, fs_Tax_Amount = Some 1\<rparr>,
      \<lparr>fs_Customer_Key = Some 1, fs_City_Key = Some 7, fs_Salesperson_Key = Some 4,
       fs_Stock_Item_Key = Some 2, fs_Invoice_Date_Key = Some ''2014-05-02'',
       fs_Unit_Price = Some 20, fs_Tax_Amount = Some 3\<rparr>]"

definition ex_dimcustomer :: "dimcustomer list" where
  "ex_dimcustomer = [\<lparr>cu_Customer_Key = Some 1, cu_Customer = Some ''Tailspin''\<rparr>]"

definition ex_dimcity :: "dimcity list" where
  "ex_dimcity =
     [\<lparr>ci_City_Key = Some 7, ci_City = Some ''Fresno'', ci_State_Province = Some ''California''\<rparr>,
      \<lparr>ci_City_Key = Some 8, ci_City = Some ''Reno'', ci_State_Province = Some ''Nevada''\<rparr>]"

definition ex_dimdate :: "dimdate list" where
  "ex_dimdate = [\<lparr>dd_Date = Some ''2013-01-01'', dd_Calendar_Year = Some 2013\<rparr>]"

definition ex_dimemployee :: "dimemployee list" where
  "ex_dimemployee = [\<lparr>em_Employee_Key = Some 3, em_Employee = Some ''Kayla''\<rparr>]"

definition ex_dimstockitem :: "dimstockitem list" where
  "ex_dimstockitem =
     [\<lparr>si_Stock_Item_Key = Some 1, si_Color = Some ''Red'', si_Size = None, si_Brand = None\<rparr>,
      \<lparr>si_Stock_Item_Key = Some 2, si_Color = Some ''Red'', si_Size = Some ''M'',
       si_Brand = Some ''Northwind''\<rparr>]"

definition ex_dir :: data_dir where
  "ex_dir = \<lparr>FactSale_csv = Some ex_factsale, DimCostumer_csv = Some ex_dimcustomer,
             DimCity_csv = Some ex_dimcity, DimDate_csv = Some ex_dimdate,
             DimEmployee_csv = Some ex_dimemployee, DimStockItem_csv = Some ex_dimstockitem\<rparr>"

definition ex_row_a :: merged_row where
  "ex_row_a = (((((ex_factsale ! 0, Some (ex_dimcustomer ! 0)), Some (ex_dimcity ! 0)),
                 Some (ex_dimemployee ! 0)), Some (ex_dimstockitem ! 0)), Some (ex_dimdate ! 0))"

definition ex_row_b :: merged_row where
  "ex_row_b = (((((ex_factsale ! 1, Some (ex_dimcustomer ! 0)), Some (ex_dimcity ! 0)),
                 None), Some (ex_dimstockitem ! 1)), None)"

definition ex_view :: view where
  "ex_view = [ex_row_a, ex_row_b]"

text \<open>
  A sale in a city that the city table does not have, and a sale whose date row stores
  the year \<open>2^53\<close>.
\<close>

definition ex_row_c :: merged_row where
  "ex_row_c = (((((ex_factsale ! 0, Some (ex_dimcustomer ! 0)), None),
                 Some (ex_dimemployee ! 0)), Some (ex_dimstockitem ! 0)), Some (ex_dimdate ! 0))"

definition ex_row_d :: merged_row where
  "ex_row_d = (((((ex_factsale ! 1, Some (ex_dimcustomer ! 0)), Some (ex_dimcity ! 0)),
                 None), Some (ex_dimstockitem ! 1)),
                 Some \<lparr>dd_Date = Some ''2014-05-02'', dd_Calendar_Year = Some 9007199254740992\<rparr>)"

definition ex_view_nulls :: view where
  "ex_view_nulls = [ex_row_a, ex_row_b, ex_row_c]"

definition ex_view_big :: view where
  "ex_view_big = [ex_row_d, ex_row_b]"

section \<open>Properties of load\_data\<close>

lemmas ex_defs =
  ex_factsale_def ex_dimcustomer_def ex_dimcity_def ex_dimdate_def ex_dimemployee_def
  ex_dimstockitem_def ex_dir_def ex_row_a_def ex_row_b_def ex_view_def
  ex_row_c_def ex_row_d_def ex_view_nulls_def ex_view_big_def

lemma filter_key_le1:
  "distinct (map f xs) \<Longrightarrow> length (filter (\<lambda>r. f r = k) xs) \<le> 1"
  by (induction xs) (auto simp: filter_empty_conv image_iff)

lemma merge_row_fst:
  assumes "length ms \<le> 1"
  shows "map fst (case ms of [] \<Rightarrow> [(l, None)] | _ \<Rightarrow> map (\<lambda>r. (l, Some r)) ms) = [l]"
  using assms by (cases ms) auto

text \<open>With unique right keys a left merge returns the left rows, each once, in order.\<close>

lemma map_fst_merge_left:
  assumes "distinct (map right_on right)"
  shows "map fst (merge_left left right left_on right_on) = left"
proof -
  let ?ms = "\<lambda>l. filter (\<lambda>r. right_on r = left_on l) right"
  have one: "map fst (case ?ms l of [] \<Rightarrow> [(l, None)]
                      | _ \<Rightarrow> map (\<lambda>r. (l, Some r)) (?ms l)) = [l]" for l
    by (rule merge_row_fst) (rule filter_key_le1 [OF assms])
  have eq: "(case ?ms l of [] \<Rightarrow> [(l, None)] | ms \<Rightarrow> map (\<lambda>r. (l, Some r)) ms)
          = (case ?ms l of [] \<Rightarrow> [(l, None)] | _ \<Rightarrow> map (\<lambda>r. (l, Some r)) (?ms l))" for l
    by (simp split: list.splits)
  show ?thesis
    unfolding merge_left_def
    by (induction left) (simp_all add: eq one)
qed

lemma load_data_present:
  assumes "FactSale_csv d = Some factsale" "DimCostumer_csv d = Some dimcustomer"
    "DimCity_csv d = Some dimcity" "DimDate_csv d = Some dimdate"
    "DimEmployee_csv d = Some dimemployee" "DimStockItem_csv d = Some dimstockitem"
  shows "load_data d = Inr (merge_left (merge_left (merge_left (merge_left
            (merge_left factsale dimcustomer fs_Customer_Key cu_Customer_Key)
            dimcity (fs_City_Key \<circ> fst) ci_City_Key)
            dimemployee (fs_Salesperson_Key \<circ> fst \<circ> fst) em_Employee_Key)
            dimstockitem (fs_Stock_Item_Key \<circ> fst \<circ> fst \<circ> fst) si_Stock_Item_Key)
            dimdate (fs_Invoice_Date_Key \<circ> fst \<circ> fst \<circ> fst \<circ> fst) dd_Date)"
  using assms by (simp add: load_data_def read_csv_def on_value_def Let_def)

lemma load_data_absent:
  assumes "FactSale_csv d = None \<or> DimCostumer_csv d = None \<or> DimCity_csv d = None \<or>
           DimDate_csv d = None \<or> DimEmployee_csv d = None \<or> DimStockItem_csv d = None"
  shows "load_data d = Inl FileNotFoundError"
  using assms by (auto simp: load_data_def read_csv_def on_value_def split: option.splits)

text \<open>
  Claim C1. When the six files are present and the join key of every dimension table
  has no repeated value, \<open>load_data\<close> returns a frame with as many rows as the fact
  table; more precisely, the fact rows of the merged frame are the rows of the fact
  table, each once and in the same order.
\<close>

theorem load_data_row_count:
  assumes "FactSale_csv d = Some factsale" "DimCostumer_csv d = Some dimcustomer"
    "DimCity_csv d = Some dimcity" "DimDate_csv d = Some dimdate"
    "DimEmployee_csv d = Some dimemployee" "DimStockItem_csv d = Some dimstockitem"
    and "distinct (map cu_Customer_Key dimcustomer)" "distinct (map ci_City_Key dimcity)"
    "distinct (map em_Employee_Key dimemployee)"
    "distinct (map si_Stock_Item_Key dimstockitem)" "distinct (map dd_Date dimdate)"
  shows "\<exists>merged_df. load_data d = Inr merged_df \<and> length merged_df = length factsale \<and>
           map (fst \<circ> fst \<circ> fst \<circ> fst \<circ> fst) merged_df = factsale"
proof -
  let ?m1 = "merge_left factsale dimcustomer fs_Customer_Key cu_Customer_Key"
  let ?m2 = "merge_left ?m1 dimcity (fs_City_Key \<circ> fst) ci_City_Key"
  let ?m3 = "merge_left ?m2 dimemployee (fs_Salesperson_Key \<circ> fst \<circ> fst) em_Employee_Key"
  let ?m4 = "merge_left ?m3 dimstockitem (fs_Stock_Item_Key \<circ> fst \<circ> fst \<circ> fst)
               si_Stock_Item_Key"
  let ?m5 = "merge_left ?m4 dimdate (fs_Invoice_Date_Key \<circ> fst \<circ> fst \<circ> fst \<circ> fst) dd_Date"
  have l: "load_data d = Inr ?m5" by (rule load_data_present [OF assms(1-6)])
  have "map fst ?m5 = ?m4" using assms(11) by (rule map_fst_merge_left)
  moreover have "map fst ?m4 = ?m3" using assms(10) by (rule map_fst_merge_left)
  moreover have "map fst ?m3 = ?m2" using assms(9) by (rule map_fst_merge_left)
  moreover have "map fst ?m2 = ?m1" using assms(8) by (rule map_fst_merge_left)
  moreover have "map fst ?m1 = factsale" using assms(7) by (rule map_fst_merge_left)
  ultimately have p: "map (fst \<circ> fst \<circ> fst \<circ> fst \<circ> fst) ?m5 = factsale"
    by (metis map_map)
  then have "length ?m5 = length factsale" by (metis length_map)
  with l p show ?thesis by blast
qed

theorem load_data_row_count_witness:
  "\<exists>merged_df. load_data ex_dir = Inr merged_df \<and> length merged_df = length ex_factsale \<and>
           map (fst \<circ> fst \<circ> fst \<circ> fst \<circ> fst) merged_df = ex_factsale"
  using load_data_row_count [of ex_dir ex_factsale ex_dimcustomer ex_dimcity ex_dimdate
      ex_dimemployee ex_dimstockitem]
  by (simp add: ex_defs)

text \<open>
  Claim C3. When one of the six files is absent, \<open>load_data\<close> raises
  FileNotFoundError (the specification's DataNotFoundError) and returns no frame; the
  cached call, starting without a cache entry, raises the same error and leaves the
  cache without an entry, so that the next load behaves as a first load.
\<close>

theorem load_data_missing_file:
  assumes "FactSale_csv d = None \<or> DimCostumer_csv d = None \<or> DimCity_csv d = None \<or>
           DimDate_csv d = None \<or> DimEmployee_csv d = None \<or> DimStockItem_csv d = None"
  shows "load_data d = Inl FileNotFoundError \<and>
         cached_load_data None d = (None, Inl FileNotFoundError) \<and>
         cached_load_data (fst (cached_load_data None d)) d' = cached_load_data None d'"
  by (simp add: load_data_absent [OF assms] cached_load_data_def)

theorem load_data_missing_file_witness:
  "load_data (ex_dir\<lparr>DimDate_csv := None\<rparr>) = Inl FileNotFoundError \<and>
   cached_load_data None (ex_dir\<lparr>DimDate_csv := None\<rparr>) = (None, Inl FileNotFoundError) \<and>
   cached_load_data (fst (cached_load_data None (ex_dir\<lparr>DimDate_csv := None\<rparr>))) ex_dir
     = cached_load_data None ex_dir"
  using load_data_missing_file [of "ex_dir\<lparr>DimDate_csv := None\<rparr>" ex_dir] by simp

section \<open>Properties of filter\_data\<close>

text \<open>The integers of magnitude up to \<open>2^53\<close> are float64 values.\<close>

lemma float64_of_int_exact:
  assumes "\<bar>n\<bar> \<le> 2 ^ 53"
  shows "float64_of_int n = Inr (of_int n)"
proof -
  have m: "nat \<bar>n\<bar> \<le> 2 ^ 53" using assms by (simp add: nat_le_iff)
  have r: "float64_round (nat \<bar>n\<bar>) = nat \<bar>n\<bar>" using m by (simp add: float64_round_def)
  have "nat \<bar>n\<bar> < 2 ^ 1024"
  proof -
    have "(2::nat) ^ 53 < 2 ^ 1024" by simp
    with m show ?thesis by (rule le_less_trans)
  qed
  then have b: "\<not> 2 ^ 1024 \<le> nat \<bar>n\<bar>" by simp
  have s: "sgn n * int (nat \<bar>n\<bar>) = n" by (simp add: mult_sgn_abs)
  show ?thesis unfolding float64_of_int_def Let_def r using b s by simp
qed

text \<open>\<open>2^53 + 1\<close> lies halfway between two float64 values and goes to the even one.\<close>

lemma float64_of_int_tie: "float64_of_int 9007199254740993 = Inr 9007199254740992"
  by (simp add: float64_of_int_def float64_round_def Let_def)

lemma state_eq_VStr: "state_eq (VStr s) = (\<lambda>r. State_Province r = Some s)"
  by (rule ext) (simp add: state_eq_def del: State_Province.simps)

lemma year_eq_fun: "year_eq y = (\<lambda>r. Calendar_Year r = Some y)"
  by (rule ext) (simp add: year_eq_def del: Calendar_Year.simps)

lemma filter_conj: "filter P (filter Q xs) = filter (\<lambda>r. Q r \<and> P r) xs"
  by (induction xs) simp_all

lemma filter_data_no_year:
  "filter_data df s (VStr ''All'') =
     Inr (if s \<noteq> VStr ''All'' then filter (state_eq s) df else df)"
  by (simp add: filter_data_def)

lemma filter_data_year:
  assumes "y \<noteq> VStr ''All''" "py_int y = Inr n" "float64_of_int n = Inr f"
  shows "filter_data df s y =
     Inr (filter (year_eq f) (if s \<noteq> VStr ''All'' then filter (state_eq s) df else df))"
  using assms by (simp add: filter_data_def on_value_def)

lemma filter_data_error:
  assumes "y \<noteq> VStr ''All''" "py_int y = Inl e"
  shows "filter_data df s y = Inl e"
  using assms by (simp add: filter_data_def on_value_def)

text \<open>
  What \<open>int\<close> reads has digits and underscores only, after the white space at both
  ends and the sign: a string with any other character raises ValueError.
\<close>

lemma in_dropWhile: "c \<in> set s \<Longrightarrow> \<not> P c \<Longrightarrow> c \<in> set (dropWhile P s)"
  by (induction s) auto

lemma in_strip: "c \<in> set s \<Longrightarrow> \<not> is_space c \<Longrightarrow> c \<in> set (strip s)"
  by (simp add: strip_def in_dropWhile)

lemma parse_digits_chars:
  "parse_digits acc s = Some m \<Longrightarrow> c \<in> set s \<Longrightarrow> is_digit c \<or> c = CHR ''_''"
  by (induction acc s arbitrary: m rule: parse_digits.induct) (auto split: if_splits)

lemma parse_nat_chars:
  "parse_nat s = Some m \<Longrightarrow> c \<in> set s \<Longrightarrow> is_digit c \<or> c = CHR ''_''"
  by (cases s) (auto simp: parse_nat_def split: if_splits dest: parse_digits_chars)

lemma int_of_str_other_char:
  assumes "c \<in> set s" "\<not> is_space c" "\<not> is_digit c"
    "c \<noteq> CHR ''_''" "c \<noteq> CHR ''+''" "c \<noteq> CHR ''-''"
  shows "int_of_str s = None"
proof (rule ccontr)
  assume "int_of_str s \<noteq> None"
  then obtain k where k: "int_of_str s = Some k" by auto
  from assms(1,2) have c: "c \<in> set (strip s)" by (rule in_strip)
  then obtain d ds where t: "strip s = d # ds" by (cases "strip s") auto
  let ?body = "if d = CHR ''-'' \<or> d = CHR ''+'' then ds else d # ds"
  from k t obtain m where "parse_nat ?body = Some m"
    by (auto simp: int_of_str_def Let_def split: if_splits)
  moreover from c t assms(5,6) have "c \<in> set ?body" by auto
  ultimately have "is_digit c \<or> c = CHR ''_''" by (rule parse_nat_chars)
  with assms(3,4) show False by simp
qed

text \<open>
  Claim C4. With the sentinel \<open>'All'\<close> for the state and for the year, \<open>filter_data\<close>
  returns the rows of its input frame.
\<close>

theorem filter_data_All_All: "filter_data df (VStr ''All'') (VStr ''All'') = Inr df"
  by (simp add: filter_data_def)



text \<open>
  Claim C6, as the code has it. For a state given as a string and a year selection that
  the year line accepts (the sentinel, or a value that \<open>int\<close> reads as \<open>n\<close> and
  that converts to float64), \<open>filter_data\<close> returns a frame in which no row of a
  missing state occurs when a state is selected, and no row of a missing year occurs
  when a year is selected. When moreover the magnitude of \<open>n\<close> is at most \<open>2^53\<close>,
  the frame returned holds exactly the rows whose state is the selected one (when a
  state is selected) and whose stored year equals the integer \<open>n\<close> (when a year is
  selected), in the order of the input.
\<close>

theorem filter_data_exact_rows:
  assumes "selected_year = VStr ''All'' \<or>
           (py_int selected_year = Inr n \<and> float64_of_int n = Inr y)"
  shows "\<exists>out. filter_data df (VStr s) selected_year = Inr out \<and>
           (s \<noteq> ''All'' \<longrightarrow> (\<forall>r\<in>set df. State_Province r = None \<longrightarrow> r \<notin> set out)) \<and>
           (selected_year \<noteq> VStr ''All'' \<longrightarrow>
              (\<forall>r\<in>set df. Calendar_Year r = None \<longrightarrow> r \<notin> set out)) \<and>
           (selected_year = VStr ''All'' \<or> \<bar>n\<bar> \<le> 2 ^ 53 \<longrightarrow>
              out = filter (\<lambda>r. (s = ''All'' \<or> State_Province r = Some s) \<and>
                                 (selected_year = VStr ''All'' \<or>
                                  Calendar_Year r = Some (of_int n))) df)"
proof -
  let ?keep = "\<lambda>v r. (s = ''All'' \<or> State_Province r = Some s) \<and>
                      (selected_year = VStr ''All'' \<or> Calendar_Year r = Some v)"
  have rows: "filter_data df (VStr s) selected_year = Inr (filter (?keep y) df)"
  proof (cases "selected_year = VStr ''All''")
    case True
    then show ?thesis
      by (simp add: filter_data_no_year state_eq_VStr del: State_Province.simps)
  next
    case False
    with assms have i: "py_int selected_year = Inr n" and f: "float64_of_int n = Inr y"
      by simp_all
    from filter_data_year [OF False i f] False show ?thesis
      by (simp add: filter_conj state_eq_VStr year_eq_fun
          del: State_Province.simps Calendar_Year.simps)
  qed
  have st: "r \<notin> set (filter (?keep y) df)" if "s \<noteq> ''All''" "State_Province r = None" for r
    using that by (simp del: State_Province.simps Calendar_Year.simps)
  have yr: "r \<notin> set (filter (?keep y) df)"
    if "selected_year \<noteq> VStr ''All''" "Calendar_Year r = None" for r
    using that by (simp del: State_Province.simps Calendar_Year.simps)
  have ex: "filter (?keep y) df = filter (?keep (of_int n)) df"
    if "selected_year = VStr ''All'' \<or> \<bar>n\<bar> \<le> 2 ^ 53"
  proof (cases "selected_year = VStr ''All''")
    case True
    then show ?thesis by simp
  next
    case False
    with that have "\<bar>n\<bar> \<le> 2 ^ 53" by simp
    then have "float64_of_int n = Inr (of_int n)" by (rule float64_of_int_exact)
    moreover from False assms have "float64_of_int n = Inr y" by simp
    ultimately have "y = of_int n" by simp
    then show ?thesis by simp
  qed
  from rows st yr ex show ?thesis by blast
qed

theorem filter_data_exact_rows_witness:
  "filter_data ex_view_nulls (VStr ''California'') (VInt 2013) = Inr [ex_row_a] \<and>
   Calendar_Year ex_row_a = Some 2013 \<and> State_Province ex_row_a = Some ''California'' \<and>
   Calendar_Year ex_row_b = None \<and> ex_row_b \<in> set ex_view_nulls \<and>
   ex_row_b \<notin> set [ex_row_a] \<and>
   State_Province ex_row_c = None \<and> ex_row_c \<in> set ex_view_nulls \<and>
   ex_row_c \<notin> set [ex_row_a]"
  using filter_data_exact_rows [of "VInt 2013" 2013 2013 ex_view_nulls "''California''"]
  by (simp add: ex_defs py_int_def float64_of_int_def float64_round_def Let_def)

text \<open>
  Claim C6 as the specification words it fails beyond \<open>2^53\<close>: the requested year is
  converted to float64 before the comparison, so the request \<open>2^53 + 1\<close> returns the
  row that stores the year \<open>2^53\<close>, which is not the requested integer.
\<close>

theorem filter_data_year_rounded_counterexample:
  "filter_data ex_view_big (VStr ''All'') (VInt 9007199254740993) = Inr [ex_row_d] \<and>
   Calendar_Year ex_row_d = Some 9007199254740992 \<and>
   Calendar_Year ex_row_d \<noteq> Some (of_int 9007199254740993)"
  by (simp add: ex_defs filter_data_def py_int_def on_value_def year_eq_def float64_of_int_tie)

text \<open>
  Claim C8. A year selection that is a string other than the sentinel and that \<open>int\<close>
  cannot read makes \<open>filter_data\<close> raise ValueError (the specification's
  InvalidFilterError): the caller gets the error and no frame, filtered or not.
\<close>

theorem filter_data_year_not_numeric:
  assumes "t \<noteq> ''All''" "int_of_str t = None"
  shows "filter_data df selected_state (VStr t) = Inl ValueError \<and>
         snd (filter_data_store h r selected_state (VStr t)) = Inl ValueError"
proof -
  have e: "py_int (VStr t) = Inl ValueError" using assms(2) by (simp add: py_int_def)
  have "filter_data df selected_state (VStr t) = Inl ValueError"
    using assms(1) e by (simp add: filter_data_error)
  moreover have "snd (filter_data_store h r selected_state (VStr t)) = Inl ValueError"
    using assms(1) e by (simp add: filter_data_store_def df_copy_def df_getitem_def)
  ultimately show ?thesis by simp
qed

theorem filter_data_year_not_numeric_witness:
  "filter_data ex_view (VStr ''California'') (VStr ''abc'') = Inl ValueError \<and>
   snd (filter_data_store [ex_view] 0 (VStr ''California'') (VStr ''abc'')) = Inl ValueError"
  using filter_data_year_not_numeric [of "''abc''" ex_view "VStr ''California''" "[ex_view]" 0]
  by (simp add: int_of_str_def strip_def is_space_def parse_nat_def is_digit_def
      int_max_str_digits_def Let_def)

text \<open>
  Claim C9. \<open>filter_data\<close>, run on a store that holds the input frame at \<open>df\<close>,
  leaves every frame of the store as it was, the input frame among them; a frame it
  returns is a new object of the store, different from the input, and it holds the
  filtered rows.
\<close>

theorem filter_data_store_frame:
  assumes "df < length h"
  shows "(case filter_data_store h df selected_state selected_year of
            (h', res) \<Rightarrow> take (length h) h' = h \<and> h' ! df = h ! df \<and>
               (\<forall>r. res = Inr r \<longrightarrow> length h \<le> r \<and> r < length h' \<and> r \<noteq> df \<and>
                  filter_data (h ! df) selected_state selected_year = Inr (h' ! r)))"
  using assms
  by (auto simp: filter_data_store_def filter_data_def df_copy_def df_getitem_def on_value_def
      nth_append split: sum.splits)

theorem filter_data_store_frame_witness:
  "(0::nat) < length [ex_view] \<and>
   (case filter_data_store [ex_view] 0 (VStr ''California'') (VInt 2013) of
      (h', res) \<Rightarrow> res = Inr 3 \<and> h' ! 0 = ex_view \<and> h' ! 3 = [ex_row_a])"
  using filter_data_store_frame [of 0 "[ex_view]" "VStr ''California''" "VInt 2013"]
  by (simp add: ex_defs filter_data_store_def df_copy_def df_getitem_def py_int_def
      state_eq_def year_eq_def float64_of_int_def float64_round_def Let_def)



section \<open>Properties of the metrics\<close>

lemma set_dropna: "set (dropna xs) = {x. Some x \<in> set xs}"
  by (induction xs) (auto simp: dropna_def map_filter_simps split: option.splits)

lemma fillna_no_None: "None \<notin> set (fillna a xs)"
  by (auto simp: fillna_def split: option.splits)

text \<open>
  Over a finite set of keys that covers the key of every row, the groups hold the
  values of all rows, each once.
\<close>

lemma group_rows_total:
  assumes "finite S" "\<forall>z\<in>set zs. \<exists>k\<in>S. fst z = Some k"
  shows "(\<Sum>k\<in>S. mset (map snd (filter (\<lambda>kv. fst kv = Some k) zs))) = mset (map snd zs)"
  using assms(2)
proof (induction zs)
  case Nil
  then show ?case by simp
next
  case (Cons z zs)
  obtain k0 where k0: "k0 \<in> S" "fst z = Some k0" using Cons.prems by auto
  let ?g = "\<lambda>k zs. mset (map snd (filter (\<lambda>kv. fst kv = Some k) zs))"
  have step: "?g k (z # zs) = (if k = k0 then {#snd z#} else {#}) + ?g k zs" for k
    using k0(2) by auto
  have "(\<Sum>k\<in>S. ?g k (z # zs))
          = (\<Sum>k\<in>S. if k = k0 then {#snd z#} else {#}) + (\<Sum>k\<in>S. ?g k zs)"
    by (simp only: step sum.distrib)
  also have "(\<Sum>k\<in>S. if k = k0 then {#snd z#} else {#}) = {#snd z#}"
    using assms(1) k0(1) by simp
  also have "(\<Sum>k\<in>S. ?g k zs) = mset (map snd zs)"
    using Cons by simp
  finally show ?case by simp
qed

lemma groupby_rows:
  assumes "length ks = length vs" "None \<notin> set ks"
  shows "mset (concat (map snd (groupby ks vs))) = mset vs"
proof -
  let ?K = "sort (remdups (dropna ks))"
  let ?g = "\<lambda>k. mset (map snd (filter (\<lambda>kv. fst kv = Some k) (zip ks vs)))"
  have d: "distinct ?K" by simp
  have cover: "\<forall>z\<in>set (zip ks vs). \<exists>k\<in>set ?K. fst z = Some k"
  proof
    fix z assume "z \<in> set (zip ks vs)"
    then have m: "fst z \<in> set ks" by (metis in_set_zipE prod.collapse)
    with assms(2) obtain k where "fst z = Some k" by (cases "fst z") auto
    with m show "\<exists>k\<in>set ?K. fst z = Some k" by (auto simp: set_dropna)
  qed
  have "mset (concat (map snd (groupby ks vs))) = sum_list (map ?g ?K)"
    by (simp add: groupby_def comp_def mset_concat)
  also have "\<dots> = (\<Sum>k\<in>set ?K. ?g k)"
    using d by (rule sum_list_distinct_conv_sum_set)
  also have "\<dots> = mset (map snd (zip ks vs))"
    by (rule group_rows_total) (simp, rule cover)
  also have "map snd (zip ks vs) = vs" using assms(1) by simp
  finally show ?thesis .
qed

text \<open>
  Claim C2. On the empty frame the metrics of \<open>main\<close> are defined: no unique color, no
  unique size, total revenue 0, and an average unit price that is NaN; the grouped
  frames of the charts are empty.
\<close>

theorem empty_view_metrics:
  "unique_colors [] = 0 \<and> unique_sizes [] = 0 \<and> total_revenue [] = 0 \<and>
   avg_unit_price [] = None \<and>
   state_revenue [] = [] \<and> size_sales [] = [] \<and> state_tax [] = [] \<and> brand_sales [] = []"
  by (simp add: unique_colors_def unique_sizes_def total_revenue_def avg_unit_price_def
      state_revenue_def size_sales_def state_tax_def brand_sales_def groupby_def fillna_def
      unique_def dropna_def series_sum_def series_mean_def round2_def map_filter_simps)

text \<open>
  The groups behind the sales by size and the sales by brand, whatever the arithmetic
  of their sums: \<open>fillna\<close> gives every row a group key, so the unit price of every
  row of the frame goes into exactly one group, and no unit price is left out.
\<close>

lemma grouped_sales_keep_every_row:
  "mset (concat (map snd (groupby (fillna ''Sin Talla'' (map Size df)) (map Unit_Price df))))
     = mset (map Unit_Price df) \<and>
   mset (concat (map snd (groupby (fillna ''Sin Marca'' (map Brand df)) (map Unit_Price df))))
     = mset (map Unit_Price df)"
proof -
  have "mset (concat (map snd (groupby (fillna a (map f df)) (map Unit_Price df))))
          = mset (map Unit_Price df)" for a :: string and f
    by (rule groupby_rows) (simp_all add: fillna_no_None, simp add: fillna_def)
  then show ?thesis by simp
qed

end
